theory Spec2Isabelle
  imports Complex_Main
begin

section \<open>Errors raised by the Python code\<close>

text \<open>
  Every exception that the modelled code can raise is a value.  \<open>IndexError\<close> is what
  tensor or list indexing raises out of range, \<open>ValueError\<close> is what \<open>max\<close> raises on an
  empty list and what the merge script raises itself, \<open>RuntimeError\<close> is what
  \<open>torch.cat\<close> raises on tensors whose shapes do not fit, \<open>FileNotFoundError\<close> and
  \<open>AttributeError\<close> are what loading a missing dataset and reading \<open>.features\<close> of
  a dictionary of splits raise.
\<close>

datatype error = IndexError | ValueError | RuntimeError | FileNotFoundError | AttributeError

section \<open>The aligner: \<open>ImplicitTokensAligner\<close> (aligner.py, lines 15-109)\<close>

subsection \<open>Data\<close>

text \<open>
  A token sequence is a list of integer ids, an attention mask a list of integers, an
  embedding sequence a list of vectors.  The vector type \<open>'v\<close> stays abstract in the
  surgery: the code never looks inside a vector.  A tensor with a batch axis in the
  middle, shape \<open>(len, batch, hidden)\<close>, is a list of rows, each row a list of vectors.

  The module owns \<open>k\<close> learned vectors (\<open>implicit_tokens\<close>, created with shape
  \<open>(k, hidden_size)\<close>) and a multi-head attention module of the tensor library
  (\<open>cross_attention\<close>), whose code is not part of the repository: it is a field of
  function type, taking query, key and value and returning the attention output.
\<close>

type_synonym 'v attention = "'v list list \<Rightarrow> 'v list list \<Rightarrow> 'v list list \<Rightarrow> 'v list list"

record 'v aligner =
  hidden_size :: nat
  k :: nat
  implicit_tokens :: "'v list"
  cross_attention :: "'v attention"

subsection \<open>Locating the span (lines 44-62)\<close>

text \<open>\<open>(ids == tok).nonzero(as_tuple=True)[0]\<close>: the positions holding \<open>tok\<close>, ascending.\<close>

definition nonzero_eq :: "int list \<Rightarrow> int \<Rightarrow> nat list" where
  "nonzero_eq ids tok = filter (\<lambda>i. ids ! i = tok) [0..<length ids]"

text \<open>
  The result is \<open>Inr None\<close> where the code appends the example unchanged and continues,
  \<open>Inr (Some (start_idx, end_idx))\<close> where it goes on to the splice, and
  \<open>Inl IndexError\<close> where \<open>think_positions[2]\<close> is out of range.
\<close>

definition locate_span :: "int \<Rightarrow> int \<Rightarrow> int list \<Rightarrow> error + (nat \<times> nat) option" where
  "locate_span think_token_id end_think_token_id ids =
     (let think_positions = nonzero_eq ids think_token_id;
          end_think_positions = nonzero_eq ids end_think_token_id
      in if length think_positions = 0 \<or> length end_think_positions = 0 then Inr None
         else if \<not> 2 < length think_positions then Inl IndexError
         else
           let start_idx = think_positions ! 2;
               end_idx_candidates = filter (\<lambda>p. start_idx < p) end_think_positions
           in if length end_idx_candidates = 0 then Inr None
              else Inr (Some (start_idx, last end_idx_candidates)))"

subsection \<open>The aggregated region (lines 76-80)\<close>

text \<open>\<open>t.unsqueeze(1)\<close> on a tensor of shape \<open>(n, hidden)\<close>: a batch axis of size 1.\<close>

definition unsqueeze1 :: "'v list \<Rightarrow> 'v list list" where
  "unsqueeze1 t = map (\<lambda>v. [v]) t"

text \<open>
  \<open>t.squeeze(1)\<close> removes the batch axis when its size is 1.  Otherwise the tensor keeps
  its three axes, and the \<open>torch.cat\<close> that follows, with tensors of two axes, raises:
  that case is \<open>None\<close> here.
\<close>

definition squeeze1 :: "'v list list \<Rightarrow> 'v list option" where
  "squeeze1 t = (if list_all (\<lambda>row. length row = 1) t then Some (map hd t) else None)"

definition aligned_region :: "'v aligner \<Rightarrow> 'v list \<Rightarrow> error + 'v list" where
  "aligned_region a region_emb =
     (let queries = unsqueeze1 (implicit_tokens a);
          region_emb_seq = unsqueeze1 region_emb;
          attn_output = cross_attention a queries region_emb_seq region_emb_seq
      in case squeeze1 attn_output of
           None \<Rightarrow> Inl RuntimeError
         | Some aligned \<Rightarrow> Inr aligned)"

subsection \<open>The splice (lines 64-90)\<close>

text \<open>\<open>xs[i:j]\<close> for indices that are not negative.\<close>

definition slice :: "'a list \<Rightarrow> nat \<Rightarrow> nat \<Rightarrow> 'a list" where
  "slice xs i j = take (j - i) (drop i xs)"

definition reassemble ::
  "'v aligner \<Rightarrow> 'v list \<Rightarrow> int list \<Rightarrow> (nat \<times> nat) option \<Rightarrow> error + ('v list \<times> int list)" where
  "reassemble a emb msk region =
     (case region of
        None \<Rightarrow> Inr (emb, msk)
      | Some (start_idx, end_idx) \<Rightarrow>
          let region_emb = slice emb (start_idx + 1) end_idx;
              region_len = length region_emb
          in if region_len = 0
             then Inr (take start_idx emb @ drop (end_idx + 1) emb,
                       take start_idx msk @ drop (end_idx + 1) msk)
             else
               (case aligned_region a region_emb of
                  Inl e \<Rightarrow> Inl e
                | Inr aligned \<Rightarrow>
                    Inr (take start_idx emb @ aligned @ drop (end_idx + 1) emb,
                         take start_idx msk @ replicate (k a) 1 @ drop (end_idx + 1) msk)))"

text \<open>The body of the loop over the batch, for one example.\<close>

definition forward_example ::
  "'v aligner \<Rightarrow> int \<Rightarrow> int \<Rightarrow> int list \<Rightarrow> 'v list \<Rightarrow> int list \<Rightarrow> error + ('v list \<times> int list)" where
  "forward_example a think_token_id end_think_token_id ids emb msk =
     (case locate_span think_token_id end_think_token_id ids of
        Inl e \<Rightarrow> Inl e
      | Inr region \<Rightarrow> reassemble a emb msk region)"

text \<open>
  Some close-tag position lies strictly after position \<open>p\<close>: the test the code makes on
  \<open>end_idx_candidates\<close>, as a predicate.
\<close>

definition close_after :: "int \<Rightarrow> int list \<Rightarrow> nat \<Rightarrow> bool" where
  "close_after end_think_token_id ids p \<longleftrightarrow>
     filter (\<lambda>c. p < c) (nonzero_eq ids end_think_token_id) \<noteq> []"

subsection \<open>Padding the batch (lines 92-109)\<close>

definition pad_example :: "'v \<Rightarrow> nat \<Rightarrow> 'v list \<times> int list \<Rightarrow> 'v list \<times> int list" where
  "pad_example pad_token_emb max_len new =
     (case new of (emb, msk) \<Rightarrow>
        let pad_len = max_len - length emb
        in if 0 < pad_len
           then (emb @ replicate pad_len pad_token_emb, msk @ replicate pad_len 0)
           else (emb, msk))"

text \<open>
  \<open>max\<close> of an empty list raises \<open>ValueError\<close>.  The last two \<open>torch.cat\<close> stack the
  padded rows: the padded embeddings all have \<open>max_len\<close> rows, the padded masks must
  agree in length or the call raises.
\<close>

definition pad_batch ::
  "'v \<Rightarrow> ('v list \<times> int list) list \<Rightarrow> error + ('v list list \<times> int list list)" where
  "pad_batch pad_token_emb news =
     (if news = [] then Inl ValueError
      else
        let new_seq_lengths = map (\<lambda>new. length (fst new)) news;
            max_len = Max (set new_seq_lengths);
            padded = map (pad_example pad_token_emb max_len) news;
            padded_embeddings = map fst padded;
            padded_masks = map snd padded
        in if list_all (\<lambda>m. length m = length (hd padded_masks)) padded_masks
           then Inr (padded_embeddings, padded_masks)
           else Inl RuntimeError)"

subsection \<open>The tokenizer, as far as the code uses it\<close>

datatype side = Left | Right

record tokenizer =
  convert_tokens_to_ids :: "string \<Rightarrow> int"
  tokenize :: "string \<Rightarrow> int list"
  pad_token_id :: int
  padding_side :: side

subsection \<open>\<open>forward\<close> (lines 29-109)\<close>

text \<open>
  The loop over \<open>range(batch_size)\<close>, where \<open>batch_size\<close> is the number of rows of
  \<open>embeddings\<close>: reading \<open>input_ids[i]\<close> or \<open>attention_mask[i]\<close> beyond their rows raises.
\<close>

fun forward_loop ::
  "'v aligner \<Rightarrow> int \<Rightarrow> int \<Rightarrow> 'v list list \<Rightarrow> int list list \<Rightarrow> int list list
   \<Rightarrow> error + ('v list \<times> int list) list" where
  "forward_loop a t e [] input_ids attention_mask = Inr []"
| "forward_loop a t e (emb # embeddings) (ids # input_ids) (msk # attention_mask) =
     (case forward_example a t e ids emb msk of
        Inl err \<Rightarrow> Inl err
      | Inr new \<Rightarrow>
          (case forward_loop a t e embeddings input_ids attention_mask of
             Inl err \<Rightarrow> Inl err
           | Inr news \<Rightarrow> Inr (new # news)))"
| "forward_loop a t e (emb # embeddings) input_ids attention_mask = Inl IndexError"

definition forward ::
  "'v aligner \<Rightarrow> 'v list list \<Rightarrow> int list list \<Rightarrow> int list list \<Rightarrow> tokenizer \<Rightarrow> 'v
   \<Rightarrow> error + ('v list list \<times> int list list)" where
  "forward a embeddings input_ids attention_mask tok pad_token_emb =
     (let think_token_id = convert_tokens_to_ids tok ''<think>'';
          end_think_token_id = convert_tokens_to_ids tok ''</think>''
      in case forward_loop a think_token_id end_think_token_id
                embeddings input_ids attention_mask of
           Inl err \<Rightarrow> Inl err
         | Inr news \<Rightarrow> pad_batch pad_token_emb news)"

subsection \<open>What the module's constructor and the attention module guarantee\<close>

text \<open>\<open>__init__\<close> creates \<open>implicit_tokens\<close> with \<open>k\<close> rows.\<close>

definition aligner_ok :: "'v aligner \<Rightarrow> bool" where
  "aligner_ok a \<longleftrightarrow> length (implicit_tokens a) = k a"

text \<open>
  The shape contract of the attention module: for a query of shape \<open>(L, N, E)\<close> the
  output has shape \<open>(L, N, E)\<close>.  Here: as many rows as the query, and a batch axis of
  size 1 when the query's is.
\<close>

definition attention_shape_ok :: "'v attention \<Rightarrow> bool" where
  "attention_shape_ok attn \<longleftrightarrow>
     (\<forall>query key val.
        length (attn query key val) = length query
        \<and> (list_all (\<lambda>row. length row = 1) query
             \<longrightarrow> list_all (\<lambda>row. length row = 1) (attn query key val)))"

section \<open>The cross-attention of the Region Aggregator\<close>

text \<open>
  Modelled from the spec: the multi-head attention module that \<open>cross_attention\<close> holds
  belongs to the tensor library and is missing from the sources.  The spec (4.2) gives
  its contract: \<open>k\<close> query vectors of dimension \<open>H\<close> attend to a region of \<open>L\<close> vectors of
  dimension \<open>H\<close>, which are keys and values at once, with a head count that divides
  \<open>H\<close>.  Each head works on its own slice of width \<open>H div num_heads\<close> of every vector:
  the weights are the softmax of the scaled dot products of the query slice with the key
  slices, the head's output is the sum of the value slices under these weights, and the
  outputs of the heads are concatenated.  Scalars are real numbers.  The spec names no
  learned projections of queries, keys, values or output, and the model has none.
\<close>

text \<open>Modelled from the spec: the dot product of a query slice and a key slice.\<close>

definition dot :: "real list \<Rightarrow> real list \<Rightarrow> real" where
  "dot u v = sum_list (map2 (*) u v)"

text \<open>Modelled from the spec: the attention weights of one query over the region.\<close>

definition softmax :: "real list \<Rightarrow> real list" where
  "softmax xs = map (\<lambda>x. exp x / sum_list (map exp xs)) xs"

text \<open>
  Modelled from the spec: the sum of the value slices, of width \<open>d\<close>, each times its
  weight.
\<close>

definition weighted_sum :: "nat \<Rightarrow> real list \<Rightarrow> real list list \<Rightarrow> real list" where
  "weighted_sum d ws vs =
     foldr (\<lambda>(w, v) acc. map2 (+) (map ((*) w) v) acc) (zip ws vs) (replicate d 0)"

text \<open>Modelled from the spec: the part of a vector that head \<open>h\<close> works on.\<close>

definition head_slice :: "nat \<Rightarrow> nat \<Rightarrow> real list \<Rightarrow> real list" where
  "head_slice d h v = take d (drop (h * d) v)"

text \<open>
  Modelled from the spec: the output vector for one query vector, the outputs of the
  heads one after the other.
\<close>

definition attend :: "nat \<Rightarrow> nat \<Rightarrow> real list \<Rightarrow> real list list \<Rightarrow> real list list \<Rightarrow> real list" where
  "attend num_heads H q keys vals =
     (let d = H div num_heads
      in concat (map (\<lambda>h.
           let scores = map (\<lambda>key. dot (head_slice d h q) (head_slice d h key) / sqrt (real d)) keys
           in weighted_sum d (softmax scores) (map (head_slice d h) vals))
         [0..<num_heads]))"

text \<open>
  Modelled from the spec: the same on tensors with a batch axis, \<open>(L, N, H)\<close> for the
  query and \<open>(S, N, H)\<close> for key and value; batch entry \<open>b\<close> of a query row attends to
  batch entry \<open>b\<close> of every key and value row.
\<close>

definition multi_head_attention :: "nat \<Rightarrow> nat \<Rightarrow> real list attention" where
  "multi_head_attention num_heads H query key val =
     map (\<lambda>qrow.
            map (\<lambda>(b, q). attend num_heads H q (map (\<lambda>row. row ! b) key) (map (\<lambda>row. row ! b) val))
                (zip [0..<length qrow] qrow))
         query"

text \<open>
  An aligner for the worked examples: hidden size 1, \<open>k = 2\<close>, one head.
\<close>

definition scenario_aligner :: "real list aligner" where
  "scenario_aligner =
     \<lparr>hidden_size = 1, k = 2, implicit_tokens = [[1], [2]],
      cross_attention = multi_head_attention 1 1\<rparr>"

section \<open>Label masking and collation: \<open>data_collator\<close> (aligner.py, lines 237-256)\<close>

record example =
  full_text :: string
  prompt_length :: nat

record collated =
  input_ids :: "int list list"
  attention_mask :: "int list list"
  labels :: "int list list"

text \<open>Line 249: \<open>[-100] * p_len + ids[p_len:]\<close>.\<close>

definition example_labels :: "int list \<Rightarrow> nat \<Rightarrow> int list" where
  "example_labels ids p_len = replicate p_len (- 100) @ drop p_len ids"

text \<open>
  \<open>tokenizer.pad\<close> of the tokenizer library, on the key \<open>input_ids\<close>: every row is filled
  up to the longest row with the pad token id, on the tokenizer's padding side.
\<close>

definition tokenizer_pad :: "tokenizer \<Rightarrow> int list list \<Rightarrow> int list list" where
  "tokenizer_pad tok seqs =
     (let max_length = Max (set (map length seqs))
      in map (\<lambda>s. let difference = max_length - length s
                  in case padding_side tok of
                       Right \<Rightarrow> s @ replicate difference (pad_token_id tok)
                     | Left \<Rightarrow> replicate difference (pad_token_id tok) @ s)
             seqs)"

definition data_collator :: "example list \<Rightarrow> tokenizer \<Rightarrow> collated" where
  "data_collator batch tok =
     (let ids_list = map (\<lambda>ex. tokenize tok (full_text ex)) batch;
          labels_list =
            map (\<lambda>ex. example_labels (tokenize tok (full_text ex)) (prompt_length ex)) batch;
          batch_inputs = tokenizer_pad tok ids_list;
          batch_labels = tokenizer_pad tok labels_list
      in \<lparr>input_ids = batch_inputs,
          attention_mask = map (map (\<lambda>x. if x \<noteq> pad_token_id tok then 1 else 0)) batch_inputs,
          labels = batch_labels\<rparr>)"

text \<open>
  A tokenizer for the worked examples: one token per character, its code; pad token id
  0, padding on the right.
\<close>

definition char_tokenizer :: tokenizer where
  "char_tokenizer =
     \<lparr>convert_tokens_to_ids = (\<lambda>s. if s = ''<think>'' then 3 else if s = ''</think>'' then 9 else 1),
      tokenize = map (\<lambda>c. int (of_char c)),
      pad_token_id = 0,
      padding_side = Right\<rparr>"

section \<open>Merging two datasets: tools/dataset_merge.py\<close>

text \<open>
  A dataset has a schema (\<open>features\<close>, a dictionary from field names to field types) and
  rows.  What is stored under a path is a dataset or, after \<open>train_test_split\<close>, a
  dictionary of the two splits, which has no \<open>features\<close> attribute.
\<close>

record ('f, 'r) dataset =
  features :: "string \<rightharpoonup> 'f"
  rows :: "'r list"

datatype ('f, 'r) stored =
  Dataset "('f, 'r) dataset"
| DatasetDict "('f, 'r) dataset" "('f, 'r) dataset"

type_synonym ('f, 'r) disk = "string \<rightharpoonup> ('f, 'r) stored"

text \<open>
  \<open>concatenate_datasets\<close> of the dataset library: the rows of the datasets one after the
  other, under the schema of the first.  The script calls it with two datasets whose
  schemas it has compared; the empty list, which the library rejects, does not occur.
\<close>

fun concatenate_datasets :: "('f, 'r) dataset list \<Rightarrow> ('f, 'r) dataset" where
  "concatenate_datasets [] = \<lparr>features = Map.empty, rows = []\<rparr>"
| "concatenate_datasets (d # ds) = \<lparr>features = features d, rows = concat (map rows (d # ds))\<rparr>"

text \<open>
  The script, as a function of the disk it reads and writes and of the random split of
  the library.  \<open>Inl\<close> is the exception that ends it, with nothing written; \<open>Inr\<close> is the
  disk after \<open>save_to_disk\<close>.
\<close>

definition dataset_merge ::
  "(('f, 'r) dataset \<Rightarrow> ('f, 'r) dataset \<times> ('f, 'r) dataset) \<Rightarrow> ('f, 'r) disk
   \<Rightarrow> error + ('f, 'r) disk" where
  "dataset_merge train_test_split disk =
     (case disk ''data/s1'' of
        None \<Rightarrow> Inl FileNotFoundError
      | Some loaded1 \<Rightarrow>
          (case disk ''data/s2'' of
             None \<Rightarrow> Inl FileNotFoundError
           | Some loaded2 \<Rightarrow>
               (case (loaded1, loaded2) of
                  (Dataset dataset1, Dataset dataset2) \<Rightarrow>
                    if features dataset1 \<noteq> features dataset2 then Inl ValueError
                    else
                      let merged_dataset = concatenate_datasets [dataset1, dataset2];
                          (train, test) = train_test_split merged_dataset
                      in Inr (disk(''data/merged'' \<mapsto> DatasetDict train test))
                | _ \<Rightarrow> Inl AttributeError)))"

section \<open>The span locator\<close>

lemma nonzero_eq_empty_iff: "nonzero_eq ids tok = [] \<longleftrightarrow> tok \<notin> set ids"
  by (auto simp: nonzero_eq_def filter_empty_conv in_set_conv_nth)

lemma nonzero_eq_mem: "p \<in> set (nonzero_eq ids tok) \<longleftrightarrow> p < length ids \<and> ids ! p = tok"
  by (auto simp: nonzero_eq_def)

text \<open>A located region lies inside the sequence, the open position before the close one.\<close>

lemma locate_span_Some:
  assumes "locate_span t e ids = Inr (Some (s, en))"
  shows "s < en \<and> en < length ids \<and> 2 < length (nonzero_eq ids t)
         \<and> s = nonzero_eq ids t ! 2 \<and> close_after e ids s
         \<and> en = last (filter (\<lambda>c. s < c) (nonzero_eq ids e))"
proof -
  let ?tp = "nonzero_eq ids t" and ?ep = "nonzero_eq ids e"
  from assms have len: "2 < length ?tp"
    by (auto simp: locate_span_def Let_def split: if_splits)
  from assms have s: "s = ?tp ! 2"
    by (auto simp: locate_span_def Let_def split: if_splits)
  let ?c = "filter (\<lambda>c. s < c) ?ep"
  from assms s have ne: "?c \<noteq> []" and en: "en = last ?c"
    by (auto simp: locate_span_def Let_def split: if_splits)
  from ne have "last ?c \<in> set ?c" by (rule last_in_set)
  with en have "s < en" "en \<in> set ?ep" by auto
  then show ?thesis using len s ne en
    by (simp add: nonzero_eq_mem close_after_def)
qed

lemma locate_span_bounds:
  assumes "locate_span t e ids = Inr (Some (s, en))"
  shows "s < en" and "en < length ids"
  using locate_span_Some [OF assms] by blast+

text \<open>The only exception of the locator, and when it is raised.\<close>

lemma locate_span_IndexError:
  "locate_span t e ids = Inl err \<longleftrightarrow>
     err = IndexError \<and> t \<in> set ids \<and> e \<in> set ids \<and> length (nonzero_eq ids t) < 3"
  by (auto simp: locate_span_def Let_def nonzero_eq_empty_iff split: if_splits)

text \<open>
  C1: a token sequence with an open tag and a close tag but fewer than three open tags
  should make the locator fail with a descriptive error.  The code guards only against
  an empty \<open>think_positions\<close> and then reads \<open>think_positions[2]\<close>: with one open tag
  and one close tag, the outcome is the index fault of the read itself.
\<close>

theorem few_open_tags_raise_IndexError:
  "locate_span 3 9 [3, 9] = Inl IndexError
   \<and> forward_example scenario_aligner 3 9 [3, 9] [[0], [1]] [1, 1] = Inl IndexError"
  by (simp add: forward_example_def locate_span_def nonzero_eq_def upt_rec)

text \<open>
  C4: a token sequence without the open tag id has no region, and the example's
  embedding sequence and attention mask pass through unchanged.
\<close>

theorem no_open_tag_passes_through:
  assumes "think_token_id \<notin> set ids"
  shows "locate_span think_token_id end_think_token_id ids = Inr None
         \<and> forward_example a think_token_id end_think_token_id ids emb msk = Inr (emb, msk)"
proof -
  have "nonzero_eq ids think_token_id = []"
    using assms by (simp add: nonzero_eq_empty_iff)
  then have "locate_span think_token_id end_think_token_id ids = Inr None"
    by (simp add: locate_span_def)
  then show ?thesis
    by (simp add: forward_example_def reassemble_def)
qed

text \<open>The hypothesis of C4 at a sequence without the open tag id 3.\<close>

theorem no_open_tag_passes_through_witness:
  "(3::int) \<notin> set [5, 7, 9, 2]
   \<and> locate_span 3 9 [5, 7, 9, 2] = Inr None
   \<and> forward_example scenario_aligner 3 9 [5, 7, 9, 2] [[0], [1], [2], [3]] [1, 1, 1, 1]
       = Inr ([[0], [1], [2], [3]], [1, 1, 1, 1])"
  using no_open_tag_passes_through
    [of 3 "[5, 7, 9, 2]" 9 scenario_aligner "[[0], [1], [2], [3]]" "[1, 1, 1, 1]"]
  by simp

text \<open>
  C3: a token sequence that contains the open tag id and has no close tag id strictly
  after the chosen open position has no region, and the example is left unchanged.  The
  chosen open position is the third occurrence of the open tag id (line 55): either the
  sequence has no close tag id at all, or it has at least three open tags and no close
  tag follows the third.
\<close>

theorem no_close_after_start_passes_through:
  assumes "think_token_id \<in> set ids"
    and "end_think_token_id \<notin> set ids
         \<or> (2 < length (nonzero_eq ids think_token_id)
             \<and> \<not> close_after end_think_token_id ids (nonzero_eq ids think_token_id ! 2))"
  shows "locate_span think_token_id end_think_token_id ids = Inr None
         \<and> forward_example a think_token_id end_think_token_id ids emb msk = Inr (emb, msk)"
proof -
  have "locate_span think_token_id end_think_token_id ids = Inr None"
    using assms(2)
  proof
    assume "end_think_token_id \<notin> set ids"
    then have "nonzero_eq ids end_think_token_id = []"
      by (simp add: nonzero_eq_empty_iff)
    then show ?thesis by (simp add: locate_span_def)
  next
    assume "2 < length (nonzero_eq ids think_token_id)
            \<and> \<not> close_after end_think_token_id ids (nonzero_eq ids think_token_id ! 2)"
    then show ?thesis by (simp add: locate_span_def close_after_def Let_def)
  qed
  then show ?thesis
    by (simp add: forward_example_def reassemble_def)
qed

text \<open>The hypotheses of C3 at \<open>[9, 3, 3, 3]\<close>: the third open tag is last.\<close>

theorem no_close_after_start_passes_through_witness:
  "(3::int) \<in> set [9, 3, 3, 3]
   \<and> 2 < length (nonzero_eq [9, 3, 3, 3] 3)
   \<and> \<not> close_after 9 [9, 3, 3, 3] (nonzero_eq [9, 3, 3, 3] 3 ! 2)
   \<and> locate_span 3 9 [9, 3, 3, 3] = Inr None
   \<and> forward_example scenario_aligner 3 9 [9, 3, 3, 3] [[0], [1], [2], [3]] [1, 1, 1, 1]
       = Inr ([[0], [1], [2], [3]], [1, 1, 1, 1])"
proof -
  have h1: "(3::int) \<in> set [9, 3, 3, 3]" by simp
  have h2: "2 < length (nonzero_eq [9, 3, 3, 3] 3)
            \<and> \<not> close_after 9 [9, 3, 3, 3] (nonzero_eq [9, 3, 3, 3] 3 ! 2)"
    by (simp add: close_after_def nonzero_eq_def upt_rec)
  from h2 have h2': "9 \<notin> set [9, 3, 3, 3::int]
      \<or> (2 < length (nonzero_eq [9, 3, 3, 3] 3)
          \<and> \<not> close_after 9 [9, 3, 3, 3] (nonzero_eq [9, 3, 3, 3] 3 ! 2))" ..
  show ?thesis
    using no_close_after_start_passes_through [OF h1 h2', of scenario_aligner
        "[[0], [1], [2], [3]]" "[1, 1, 1, 1]"] h1 h2
    by simp
qed

section \<open>The splice\<close>

text \<open>
  What the surgery needs from the attention module is its output shape; the modelled
  multi-head attention has it.
\<close>

lemma multi_head_attention_shape: "attention_shape_ok (multi_head_attention num_heads H)"
  by (simp add: attention_shape_ok_def multi_head_attention_def list_all_iff)

lemma squeeze1_shape:
  assumes "list_all (\<lambda>row. length row = 1) t"
  shows "\<exists>s. squeeze1 t = Some s \<and> length s = length t"
  using assms by (simp add: squeeze1_def)

lemma aligned_region_length:
  assumes "aligner_ok a" and "attention_shape_ok (cross_attention a)"
  shows "\<exists>aligned. aligned_region a region_emb = Inr aligned \<and> length aligned = k a"
proof -
  let ?q = "unsqueeze1 (implicit_tokens a)" and ?r = "unsqueeze1 region_emb"
  let ?out = "cross_attention a ?q ?r ?r"
  have q: "list_all (\<lambda>row. length row = 1) ?q"
    by (simp add: unsqueeze1_def list_all_iff)
  from assms(2) q have rows: "list_all (\<lambda>row. length row = 1) ?out"
    by (simp add: attention_shape_ok_def)
  from assms have len: "length ?out = k a"
    by (simp add: attention_shape_ok_def aligner_ok_def unsqueeze1_def)
  from squeeze1_shape [OF rows] obtain s where "squeeze1 ?out = Some s" "length s = length ?out"
    by blast
  with len show ?thesis
    by (simp add: aligned_region_def)
qed

text \<open>
  C5: when the close tag follows the open tag at once (\<open>end_idx = start_idx + 1\<close>), the
  result is \<open>[0:start_idx]\<close> followed by \<open>[end_idx+1:]\<close>, of the embeddings and of the
  mask alike, two positions shorter than the input; this holds for every aligner,
  whatever its attention module, which is not called.
\<close>

theorem empty_region_removes_tags:
  assumes "locate_span think_token_id end_think_token_id ids = Inr (Some (start_idx, end_idx))"
    and "end_idx = start_idx + 1"
  shows "forward_example a think_token_id end_think_token_id ids emb msk
           = Inr (take start_idx emb @ drop (end_idx + 1) emb,
                  take start_idx msk @ drop (end_idx + 1) msk)
         \<and> (length emb = length ids
              \<longrightarrow> length (take start_idx emb @ drop (end_idx + 1) emb) = length emb - 2)
         \<and> (length msk = length ids
              \<longrightarrow> length (take start_idx msk @ drop (end_idx + 1) msk) = length msk - 2)"
proof -
  from assms(1) have "end_idx < length ids" by (rule locate_span_bounds)
  with assms show ?thesis
    by (auto simp: forward_example_def reassemble_def slice_def)
qed

text \<open>The hypotheses of C5 at \<open>[5, 3, 3, 3, 9, 2]\<close>: the region is \<open>(3, 4)\<close>.\<close>

theorem empty_region_removes_tags_witness:
  "locate_span 3 9 [5, 3, 3, 3, 9, 2] = Inr (Some (3, 4))
   \<and> forward_example scenario_aligner 3 9 [5, 3, 3, 3, 9, 2]
        [[0], [1], [2], [3], [4], [5]] [1, 1, 1, 1, 1, 1]
       = Inr ([[0], [1], [2], [5]], [1, 1, 1, 1])"
proof -
  have h: "locate_span 3 9 [5, 3, 3, 3, 9, 2] = Inr (Some (3, 4))"
    by (simp add: locate_span_def nonzero_eq_def upt_rec)
  show ?thesis
    using empty_region_removes_tags [OF h, of scenario_aligner
        "[[0], [1], [2], [3], [4], [5]]" "[1, 1, 1, 1, 1, 1]"] h
    by simp
qed

text \<open>
  Scenario A of the spec, evaluated: the region of \<open>[5, 7, 3, 3, 3, 9, 9, 2]\<close> is
  \<open>(4, 6)\<close>, the single vector between the tags is aggregated into \<open>k = 2\<close> vectors, and
  positions 4, 5 and 6 are replaced by them.
\<close>

lemma scenario_aligned_region: "aligned_region scenario_aligner [[5]] = Inr [[5], [5]]"
  by (simp add: aligned_region_def scenario_aligner_def multi_head_attention_def attend_def
      unsqueeze1_def squeeze1_def softmax_def weighted_sum_def head_slice_def dot_def)

lemma scenario_forward_example:
  "forward_example scenario_aligner 3 9 [5, 7, 3, 3, 3, 9, 9, 2]
     [[0], [1], [2], [3], [4], [5], [6], [7]] [1, 1, 1, 1, 1, 1, 1, 1]
   = Inr ([[0], [1], [2], [3], [5], [5], [7]], [1, 1, 1, 1, 1, 1, 1])"
  by (simp add: forward_example_def reassemble_def slice_def locate_span_def nonzero_eq_def
      upt_rec scenario_aligned_region)
    (simp add: scenario_aligner_def eval_nat_numeral)

text \<open>
  C2 as stated fails: in scenario A the region is not empty (\<open>4 + 1 < 6\<close>), and the
  output has 7 vectors, not \<open>8 - 1 + k = 9\<close>: the two tag positions are dropped as well.
\<close>

theorem nonempty_region_output_length_counterexample:
  "locate_span 3 9 [5, 7, 3, 3, 3, 9, 9, 2] = Inr (Some (4, 6))
   \<and> (4::nat) + 1 < 6
   \<and> forward_example scenario_aligner 3 9 [5, 7, 3, 3, 3, 9, 9, 2]
        [[0], [1], [2], [3], [4], [5], [6], [7]] [1, 1, 1, 1, 1, 1, 1, 1]
       = Inr ([[0], [1], [2], [3], [5], [5], [7]], [1, 1, 1, 1, 1, 1, 1])
   \<and> length [[0], [1], [2], [3], [5], [5], [7::real]] \<noteq> 8 - 1 + k scenario_aligner"
proof -
  have "locate_span 3 9 [5, 7, 3, 3, 3, 9, 9, 2] = Inr (Some (4, 6))"
    by (simp add: locate_span_def nonzero_eq_def upt_rec)
  moreover have "k scenario_aligner = 2"
    by (simp add: scenario_aligner_def)
  ultimately show ?thesis
    by (simp add: scenario_forward_example)
qed

text \<open>
  C2, amended: for an example whose located region has content between the tags
  (\<open>start_idx + 1 < end_idx\<close>), the output is \<open>[0:start_idx]\<close>, then \<open>k\<close> aggregated
  vectors (\<open>k\<close> ones in the mask), then \<open>[end_idx+1:]\<close>, and its length is the original
  length minus \<open>end_idx - start_idx + 1\<close> (the content and both tags) plus \<open>k\<close>.  The
  aligner has its \<open>k\<close> learned vectors, and the attention module keeps the shape of the
  query.
\<close>

theorem nonempty_region_output_length:
  assumes "aligner_ok a" and "attention_shape_ok (cross_attention a)"
    and "length emb = length ids" and "length msk = length ids"
    and "locate_span think_token_id end_think_token_id ids = Inr (Some (start_idx, end_idx))"
    and "start_idx + 1 < end_idx"
  shows "\<exists>aligned.
           length aligned = k a
           \<and> forward_example a think_token_id end_think_token_id ids emb msk
               = Inr (take start_idx emb @ aligned @ drop (end_idx + 1) emb,
                      take start_idx msk @ replicate (k a) 1 @ drop (end_idx + 1) msk)
           \<and> length (take start_idx emb @ aligned @ drop (end_idx + 1) emb)
               = length emb - (end_idx - start_idx + 1) + k a
           \<and> length (take start_idx msk @ replicate (k a) 1 @ drop (end_idx + 1) msk)
               = length msk - (end_idx - start_idx + 1) + k a"
proof -
  from assms(5) have en: "end_idx < length ids" by (rule locate_span_bounds)
  let ?region = "slice emb (start_idx + 1) end_idx"
  from en assms(3,6) have ne: "length ?region \<noteq> 0"
    by (simp add: slice_def)
  from aligned_region_length [OF assms(1,2)] obtain aligned
    where al: "aligned_region a ?region = Inr aligned" "length aligned = k a"
    by blast
  from assms(5) ne al(1)
  have "forward_example a think_token_id end_think_token_id ids emb msk
          = Inr (take start_idx emb @ aligned @ drop (end_idx + 1) emb,
                 take start_idx msk @ replicate (k a) 1 @ drop (end_idx + 1) msk)"
    by (simp add: forward_example_def reassemble_def)
  moreover from en assms(3,4,6) al(2)
  have "length (take start_idx emb @ aligned @ drop (end_idx + 1) emb)
          = length emb - (end_idx - start_idx + 1) + k a"
    and "length (take start_idx msk @ replicate (k a) 1 @ drop (end_idx + 1) msk)
          = length msk - (end_idx - start_idx + 1) + k a"
    by auto
  ultimately show ?thesis using al(2) by blast
qed

text \<open>The hypotheses of C2, amended, at scenario A: the length is \<open>8 - 3 + 2\<close>.\<close>

theorem nonempty_region_output_length_witness:
  "\<exists>aligned. length aligned = k scenario_aligner
     \<and> forward_example scenario_aligner 3 9 [5, 7, 3, 3, 3, 9, 9, 2]
          [[0], [1], [2], [3], [4], [5], [6], [7]] [1, 1, 1, 1, 1, 1, 1, 1]
         = Inr (take 4 [[0], [1], [2], [3], [4], [5], [6], [7]] @ aligned
                  @ drop (6 + 1) [[0], [1], [2], [3], [4], [5], [6], [7]],
                take 4 [1, 1, 1, 1, 1, 1, 1, 1] @ replicate (k scenario_aligner) 1
                  @ drop (6 + 1) [1, 1, 1, 1, 1, 1, 1, 1])
     \<and> length (take 4 [[0], [1], [2], [3], [4], [5], [6], [7::real]] @ aligned
                  @ drop (6 + 1) [[0], [1], [2], [3], [4], [5], [6], [7]])
         = 8 - (6 - 4 + 1) + 2"
proof -
  have a: "aligner_ok scenario_aligner"
    by (simp add: aligner_ok_def scenario_aligner_def)
  have b: "attention_shape_ok (cross_attention scenario_aligner)"
    by (simp add: scenario_aligner_def multi_head_attention_shape)
  have c: "length [[0], [1], [2], [3], [4], [5], [6], [7::real]]
             = length [5, 7, 3, 3, 3, 9, 9, 2::int]"
    by simp
  have d: "length [1, 1, 1, 1, 1, 1, 1, 1::int] = length [5, 7, 3, 3, 3, 9, 9, 2::int]"
    by simp
  have e: "locate_span 3 9 [5, 7, 3, 3, 3, 9, 9, 2] = Inr (Some (4, 6))"
    by (simp add: locate_span_def nonzero_eq_def upt_rec)
  have f: "(4::nat) + 1 < 6" by simp
  have g: "k scenario_aligner = 2"
    by (simp add: scenario_aligner_def)
  from nonempty_region_output_length [OF a b c d e f] obtain aligned where
    "length aligned = k scenario_aligner"
    "forward_example scenario_aligner 3 9 [5, 7, 3, 3, 3, 9, 9, 2]
          [[0], [1], [2], [3], [4], [5], [6], [7]] [1, 1, 1, 1, 1, 1, 1, 1]
         = Inr (take 4 [[0], [1], [2], [3], [4], [5], [6], [7]] @ aligned
                  @ drop (6 + 1) [[0], [1], [2], [3], [4], [5], [6], [7]],
                take 4 [1, 1, 1, 1, 1, 1, 1, 1] @ replicate (k scenario_aligner) 1
                  @ drop (6 + 1) [1, 1, 1, 1, 1, 1, 1, 1])"
    "length (take 4 [[0], [1], [2], [3], [4], [5], [6], [7::real]] @ aligned
                  @ drop (6 + 1) [[0], [1], [2], [3], [4], [5], [6], [7]])
         = length [[0], [1], [2], [3], [4], [5], [6], [7::real]] - (6 - 4 + 1) + k scenario_aligner"
    by blast
  then show ?thesis using g by auto
qed

section \<open>The batch padder\<close>

text \<open>
  Both branches of the padding step say the same: the row, then \<open>max_len - length\<close>
  copies of the pad value.
\<close>

lemma pad_example_eq:
  "pad_example p n new
     = (fst new @ replicate (n - length (fst new)) p,
        snd new @ replicate (n - length (fst new)) 0)"
  by (cases new) (simp add: pad_example_def Let_def)

lemma length_le_max_len:
  assumes "new \<in> set news"
  shows "length (fst new) \<le> Max (set (map (\<lambda>new. length (fst new)) news))"
  using assms by (intro Max_ge) auto

text \<open>
  The pairs that reach the padder have embeddings and mask of one length, when the input
  has: the splice puts \<open>k\<close> vectors and \<open>k\<close> ones in the same place.
\<close>

lemma forward_example_lengths_agree:
  assumes "aligner_ok a" and "attention_shape_ok (cross_attention a)"
    and "length emb = length msk"
    and "forward_example a t e ids emb msk = Inr new"
  shows "length (fst new) = length (snd new)"
proof (cases "locate_span t e ids")
  case (Inl err)
  with assms(4) show ?thesis by (simp add: forward_example_def)
next
  case (Inr region)
  show ?thesis
  proof (cases region)
    case None
    with Inr assms(3,4) show ?thesis
      by (auto simp: forward_example_def reassemble_def)
  next
    case (Some se)
    obtain s en where se: "se = (s, en)" by (cases se)
    from aligned_region_length [OF assms(1,2)] obtain aligned
      where "aligned_region a (slice emb (s + 1) en) = Inr aligned" "length aligned = k a"
      by blast
    with Inr Some se assms(3,4) show ?thesis
      by (auto simp: forward_example_def reassemble_def Let_def split: if_splits)
  qed
qed

text \<open>
  So \<open>forward\<close> hands the padder as many pairs as the batch has examples, each with
  embeddings and mask of one length.
\<close>

lemma forward_loop_pairs:
  assumes "forward_loop a t e embeddings ids_rows mask_rows = Inr news"
    and "\<forall>em \<in> set (zip embeddings mask_rows). length (fst em) = length (snd em)"
    and "aligner_ok a" and "attention_shape_ok (cross_attention a)"
  shows "length news = length embeddings \<and> (\<forall>new \<in> set news. length (fst new) = length (snd new))"
  using assms
proof (induction a t e embeddings ids_rows mask_rows arbitrary: news rule: forward_loop.induct)
  case (1 a t e ids_rows mask_rows)
  then show ?case by simp
next
  case (2 a t e emb embeddings ids ids_rows msk mask_rows)
  from "2.prems"(1) obtain new rest where
    new: "forward_example a t e ids emb msk = Inr new"
    and rest: "forward_loop a t e embeddings ids_rows mask_rows = Inr rest"
    and news: "news = new # rest"
    by (auto split: sum.splits)
  from "2.prems"(2) have len: "length emb = length msk"
    and tl: "\<forall>em \<in> set (zip embeddings mask_rows). length (fst em) = length (snd em)"
    by simp_all
  from "2.prems"(3,4) len new have "length (fst new) = length (snd new)"
    by (rule forward_example_lengths_agree)
  moreover from "2.IH" [OF new rest tl "2.prems"(3,4)]
  have "length rest = length embeddings \<and> (\<forall>new \<in> set rest. length (fst new) = length (snd new))" .
  ultimately show ?case using news by simp
qed simp_all

text \<open>
  C6: for a batch of reassembled pairs (not empty; in each pair the embeddings and the
  mask have one length), the padder returns a rectangular batch: row \<open>i\<close> of the
  embeddings is the sequence followed by copies of the pad embedding, row \<open>i\<close> of the
  masks is the mask followed by zeros, and every row has the largest length that occurs
  in the batch.
\<close>

theorem pad_batch_rectangular:
  assumes "news \<noteq> []"
    and "\<forall>new \<in> set news. length (fst new) = length (snd new)"
  shows "\<exists>padded_embeddings padded_masks.
           pad_batch pad_token_emb news = Inr (padded_embeddings, padded_masks)
           \<and> length padded_embeddings = length news
           \<and> length padded_masks = length news
           \<and> (\<forall>i < length news.
                 padded_embeddings ! i
                   = fst (news ! i)
                     @ replicate (Max (set (map (\<lambda>new. length (fst new)) news))
                                  - length (fst (news ! i))) pad_token_emb
                 \<and> padded_masks ! i
                   = snd (news ! i)
                     @ replicate (Max (set (map (\<lambda>new. length (fst new)) news))
                                  - length (snd (news ! i))) 0
                 \<and> length (padded_embeddings ! i) = Max (set (map (\<lambda>new. length (fst new)) news))
                 \<and> length (padded_masks ! i) = Max (set (map (\<lambda>new. length (fst new)) news)))"
proof -
  define M where "M = Max (set (map (\<lambda>new. length (fst new)) news))"
  define padded where "padded = map (pad_example pad_token_emb M) news"
  have le: "length (fst new) \<le> M" if "new \<in> set news" for new
    unfolding M_def using that by (rule length_le_max_len)
  have mask_len: "length (snd (pad_example pad_token_emb M new)) = M" if "new \<in> set news" for new
    using that assms(2) le [OF that] by (simp add: pad_example_eq)
  have emb_len: "length (fst (pad_example pad_token_emb M new)) = M" if "new \<in> set news" for new
    using le [OF that] by (simp add: pad_example_eq)
  from assms(1) have "hd (map snd padded) = snd (pad_example pad_token_emb M (hd news))"
    by (simp add: padded_def hd_map)
  moreover from assms(1) have "hd news \<in> set news" by simp
  ultimately have hd_len: "length (hd (map snd padded)) = M"
    by (simp add: mask_len)
  have "list_all (\<lambda>m. length m = length (hd (map snd padded))) (map snd padded)"
    unfolding hd_len by (simp add: padded_def list_all_iff mask_len)
  with assms(1) have res: "pad_batch pad_token_emb news = Inr (map fst padded, map snd padded)"
    unfolding pad_batch_def Let_def padded_def M_def by simp
  have "\<forall>i < length news.
          map fst padded ! i = fst (news ! i) @ replicate (M - length (fst (news ! i))) pad_token_emb
          \<and> map snd padded ! i = snd (news ! i) @ replicate (M - length (snd (news ! i))) 0
          \<and> length (map fst padded ! i) = M
          \<and> length (map snd padded ! i) = M"
  proof (intro allI impI)
    fix i assume i: "i < length news"
    then have mem: "news ! i \<in> set news" by simp
    from assms(2) mem have eq: "length (fst (news ! i)) = length (snd (news ! i))" by blast
    from i emb_len [OF mem] mask_len [OF mem] eq
    show "map fst padded ! i = fst (news ! i) @ replicate (M - length (fst (news ! i))) pad_token_emb
          \<and> map snd padded ! i = snd (news ! i) @ replicate (M - length (snd (news ! i))) 0
          \<and> length (map fst padded ! i) = M
          \<and> length (map snd padded ! i) = M"
      by (simp add: padded_def pad_example_eq)
  qed
  moreover have "length (map fst padded) = length news" "length (map snd padded) = length news"
    by (simp_all add: padded_def)
  ultimately show ?thesis
    using res unfolding M_def by blast
qed

text \<open>The hypotheses of C6 at a batch of two pairs, of lengths 3 and 1.\<close>

theorem pad_batch_rectangular_witness:
  "\<exists>padded_embeddings padded_masks.
     pad_batch [9::real] [([[0], [1], [2]], [1, 1, 1]), ([[3]], [1])]
       = Inr (padded_embeddings, padded_masks)
     \<and> padded_embeddings ! 1 = [[3], [9], [9]] \<and> padded_masks ! 1 = [1, 0, 0]
     \<and> length (padded_embeddings ! 0) = 3 \<and> length (padded_masks ! 0) = 3"
proof -
  let ?news = "[([[0], [1], [2]], [1, 1, 1]), ([[3::real]], [1::int])]"
  have a: "?news \<noteq> []" by simp
  have b: "\<forall>new \<in> set ?news. length (fst new) = length (snd new)" by simp
  have M: "Max (set (map (\<lambda>new. length (fst new)) ?news)) = 3" by simp
  from pad_batch_rectangular [OF a b, of "[9]", unfolded M]
  obtain E Mk where r: "pad_batch [9] ?news = Inr (E, Mk)"
    and ix: "\<forall>i < length ?news.
               E ! i = fst (?news ! i) @ replicate (3 - length (fst (?news ! i))) [9]
               \<and> Mk ! i = snd (?news ! i) @ replicate (3 - length (snd (?news ! i))) 0
               \<and> length (E ! i) = 3 \<and> length (Mk ! i) = 3"
    by blast
  from ix have "E ! 1 = [[3], [9], [9]] \<and> Mk ! 1 = [1, 0, 0]"
    by (simp add: eval_nat_numeral)
  moreover from ix have "length (E ! 0) = 3 \<and> length (Mk ! 0) = 3"
    by simp
  ultimately show ?thesis using r by blast
qed

section \<open>Label masking and collation\<close>

lemma length_example_labels: "length (example_labels ids p) = max p (length ids)"
  by (simp add: example_labels_def)

lemma tokenizer_pad_nth:
  assumes "i < length seqs"
  shows "tokenizer_pad tok seqs ! i
           = (case padding_side tok of
                Right \<Rightarrow> seqs ! i @ replicate (Max (set (map length seqs)) - length (seqs ! i)) (pad_token_id tok)
              | Left \<Rightarrow> replicate (Max (set (map length seqs)) - length (seqs ! i)) (pad_token_id tok) @ seqs ! i)"
  using assms unfolding tokenizer_pad_def Let_def by simp

lemma length_tokenizer_pad: "length (tokenizer_pad tok seqs) = length seqs"
  unfolding tokenizer_pad_def Let_def by simp

lemma labels_data_collator:
  "labels (data_collator batch tok)
     = tokenizer_pad tok
         (map (\<lambda>ex. example_labels (tokenize tok (full_text ex)) (prompt_length ex)) batch)"
  by (simp add: data_collator_def Let_def)

lemma input_ids_data_collator:
  "input_ids (data_collator batch tok)
     = tokenizer_pad tok (map (\<lambda>ex. tokenize tok (full_text ex)) batch)"
  by (simp add: data_collator_def Let_def)

lemma attention_mask_data_collator:
  "attention_mask (data_collator batch tok)
     = map (map (\<lambda>x. if x \<noteq> pad_token_id tok then 1 else 0)) (input_ids (data_collator batch tok))"
  by (simp add: data_collator_def Let_def)

text \<open>
  C7: for an example of the batch with prompt length \<open>p\<close> and \<open>t\<close> tokens of full text,
  \<open>p \<le> t\<close>, the label sequence has length \<open>t\<close>, its first \<open>p\<close> positions are \<open>-100\<close>,
  and the others are the token ids of the full text at these positions.  In the collated
  batch it stands in the example's row, with pad token ids around it only.
\<close>

theorem example_labels_mask:
  assumes "i < length batch"
    and "prompt_length (batch ! i) \<le> length (tokenize tok (full_text (batch ! i)))"
  shows "\<exists>lab pre post.
           lab = example_labels (tokenize tok (full_text (batch ! i))) (prompt_length (batch ! i))
           \<and> labels (data_collator batch tok) ! i = pre @ lab @ post
           \<and> set (pre @ post) \<subseteq> {pad_token_id tok}
           \<and> length lab = length (tokenize tok (full_text (batch ! i)))
           \<and> take (prompt_length (batch ! i)) lab = replicate (prompt_length (batch ! i)) (- 100)
           \<and> drop (prompt_length (batch ! i)) lab
               = drop (prompt_length (batch ! i)) (tokenize tok (full_text (batch ! i)))"
proof -
  let ?ids = "tokenize tok (full_text (batch ! i))" and ?p = "prompt_length (batch ! i)"
  let ?ls = "map (\<lambda>ex. example_labels (tokenize tok (full_text ex)) (prompt_length ex)) batch"
  define n where "n = Max (set (map length ?ls)) - length (?ls ! i)"
  from assms(1) have i: "i < length ?ls" by simp
  from assms(1) have li: "?ls ! i = example_labels ?ids ?p" by simp
  have row: "labels (data_collator batch tok) ! i
               = (case padding_side tok of
                    Right \<Rightarrow> [] @ example_labels ?ids ?p @ replicate n (pad_token_id tok)
                  | Left \<Rightarrow> replicate n (pad_token_id tok) @ example_labels ?ids ?p @ [])"
    unfolding labels_data_collator tokenizer_pad_nth [OF i] n_def li by (simp split: side.split)
  have props: "length (example_labels ?ids ?p) = length ?ids
               \<and> take ?p (example_labels ?ids ?p) = replicate ?p (- 100)
               \<and> drop ?p (example_labels ?ids ?p) = drop ?p ?ids"
    using assms(2) by (simp add: example_labels_def)
  show ?thesis
  proof (cases "padding_side tok")
    case Right
    with row have "labels (data_collator batch tok) ! i
                     = [] @ example_labels ?ids ?p @ replicate n (pad_token_id tok)"
      by simp
    moreover have "set ([] @ replicate n (pad_token_id tok)) \<subseteq> {pad_token_id tok}"
      by auto
    ultimately show ?thesis using props by blast
  next
    case Left
    with row have "labels (data_collator batch tok) ! i
                     = replicate n (pad_token_id tok) @ example_labels ?ids ?p @ []"
      by simp
    moreover have "set (replicate n (pad_token_id tok) @ []) \<subseteq> {pad_token_id tok}"
      by auto
    ultimately show ?thesis using props by blast
  qed
qed

text \<open>The hypotheses of C7 at the second example of a batch of two.\<close>

theorem example_labels_mask_witness:
  "\<exists>pre post.
     labels (data_collator [\<lparr>full_text = ''abcd'', prompt_length = 3\<rparr>,
                            \<lparr>full_text = ''ef'', prompt_length = 1\<rparr>] char_tokenizer) ! 1
       = pre @ example_labels [101, 102] 1 @ post
     \<and> set (pre @ post) \<subseteq> {0}
     \<and> length (example_labels [101, 102] 1) = 2
     \<and> take 1 (example_labels [101, 102] 1) = [- 100]
     \<and> drop 1 (example_labels [101, 102] 1) = [102]"
proof -
  let ?batch = "[\<lparr>full_text = ''abcd'', prompt_length = 3\<rparr>, \<lparr>full_text = ''ef'', prompt_length = 1\<rparr>]"
  have a: "1 < length ?batch" by simp
  have b: "prompt_length (?batch ! 1) \<le> length (tokenize char_tokenizer (full_text (?batch ! 1)))"
    by (simp add: char_tokenizer_def)
  have c: "tokenize char_tokenizer (full_text (?batch ! 1)) = [101, 102]"
    "prompt_length (?batch ! 1) = 1" "pad_token_id char_tokenizer = 0"
    by (simp_all add: char_tokenizer_def)
  from example_labels_mask [OF a b] obtain lab pre post where
    "lab = example_labels [101, 102] 1"
    "labels (data_collator ?batch char_tokenizer) ! 1 = pre @ lab @ post"
    "set (pre @ post) \<subseteq> {0}"
    "length lab = length [101, 102 :: int]"
    "take 1 lab = replicate 1 (- 100)"
    "drop 1 lab = drop 1 [101, 102]"
    unfolding c by blast
  then show ?thesis by auto
qed

text \<open>The collator, evaluated on that batch.\<close>

lemma collator_example:
  "data_collator [\<lparr>full_text = ''abcd'', prompt_length = 3\<rparr>, \<lparr>full_text = ''ef'', prompt_length = 1\<rparr>]
     char_tokenizer
   = \<lparr>input_ids = [[97, 98, 99, 100], [101, 102, 0, 0]],
      attention_mask = [[1, 1, 1, 1], [1, 1, 0, 0]],
      labels = [[- 100, - 100, - 100, 100], [- 100, 102, 0, 0]]\<rparr>"
  by (simp add: data_collator_def tokenizer_pad_def example_labels_def char_tokenizer_def
      eval_nat_numeral)

text \<open>Every row that the tokenizer's padding returns has the length of the longest row.\<close>

lemma length_tokenizer_pad_nth:
  assumes "i < length seqs"
  shows "length (tokenizer_pad tok seqs ! i) = Max (set (map length seqs))"
proof -
  from assms have "length (seqs ! i) \<le> Max (set (map length seqs))"
    by (intro Max_ge) auto
  then show ?thesis
    unfolding tokenizer_pad_nth [OF assms] by (cases "padding_side tok") simp_all
qed

text \<open>
  A label sequence is never shorter than the token ids it comes from, so the padded
  labels are at least as wide as the padded input ids.
\<close>

lemma max_length_labels_ge:
  "Max (set (map (\<lambda>ex. length (tokenize tok (full_text ex))) batch))
     \<le> Max (set (map (\<lambda>ex. length (example_labels (tokenize tok (full_text ex)) (prompt_length ex))) batch))"
proof (cases "batch = []")
  case True
  then show ?thesis by simp
next
  case False
  let ?is = "map (\<lambda>ex. length (tokenize tok (full_text ex))) batch"
  let ?ls = "map (\<lambda>ex. length (example_labels (tokenize tok (full_text ex)) (prompt_length ex))) batch"
  show ?thesis
  proof (rule Max.boundedI)
    show "finite (set ?is)" by simp
    from False show "set ?is \<noteq> {}" by simp
    fix x assume "x \<in> set ?is"
    then obtain ex where ex: "ex \<in> set batch" and x: "x = length (tokenize tok (full_text ex))"
      by auto
    have "x \<le> length (example_labels (tokenize tok (full_text ex)) (prompt_length ex))"
      by (simp add: x length_example_labels)
    also from ex have "\<dots> \<le> Max (set ?ls)"
      by (intro Max_ge) auto
    finally show "x \<le> Max (set ?ls)" .
  qed
qed

text \<open>
  C10: in the collated batch, the row of an example whose full text has fewer tokens
  than the longest one (\<open>V\<close>) is, in the input ids, its token ids and \<open>V - t\<close> pad
  token ids; in the attention mask, one flag per token id (0 where the id is the pad
  token id) and \<open>V - t\<close> zeros; in the labels, its label sequence and pad token ids up
  to the width \<open>W\<close> of the labels.  The padding stands after the sequence for a tokenizer
  that pads on the right, before it for one that pads on the left.  The pad token id is
  a token id, hence not negative, hence not \<open>-100\<close>.  All rows of input ids and mask
  have length \<open>V\<close>, all rows of labels length \<open>W\<close>, and in every row the mask is 0
  exactly where the padded input ids equal the pad token id.
\<close>

theorem collated_padding_is_pad_token:
  fixes batch :: "example list" and tok :: tokenizer and i :: nat
    and ids lab :: "int list" and V W :: nat and out :: collated
  defines "ids \<equiv> tokenize tok (full_text (batch ! i))"
    and "lab \<equiv> example_labels (tokenize tok (full_text (batch ! i))) (prompt_length (batch ! i))"
    and "V \<equiv> Max (set (map (\<lambda>ex. length (tokenize tok (full_text ex))) batch))"
    and "W \<equiv> Max (set (map (\<lambda>ex. length (example_labels (tokenize tok (full_text ex))
                                                  (prompt_length ex))) batch))"
    and "out \<equiv> data_collator batch tok"
  assumes "i < length batch"
    and "length (tokenize tok (full_text (batch ! i)))
           < Max (set (map (\<lambda>ex. length (tokenize tok (full_text ex))) batch))"
    and "0 \<le> pad_token_id tok"
  shows "input_ids out ! i
           = (case padding_side tok of
                Right \<Rightarrow> ids @ replicate (V - length ids) (pad_token_id tok)
              | Left \<Rightarrow> replicate (V - length ids) (pad_token_id tok) @ ids)
         \<and> attention_mask out ! i
           = (case padding_side tok of
                Right \<Rightarrow> map (\<lambda>x. if x \<noteq> pad_token_id tok then 1 else 0) ids
                          @ replicate (V - length ids) 0
              | Left \<Rightarrow> replicate (V - length ids) 0
                          @ map (\<lambda>x. if x \<noteq> pad_token_id tok then 1 else 0) ids)
         \<and> labels out ! i
           = (case padding_side tok of
                Right \<Rightarrow> lab @ replicate (W - length lab) (pad_token_id tok)
              | Left \<Rightarrow> replicate (W - length lab) (pad_token_id tok) @ lab)
         \<and> 0 < V - length ids \<and> V \<le> W
         \<and> length lab = max (prompt_length (batch ! i)) (length ids)
         \<and> pad_token_id tok \<noteq> - 100
         \<and> length (input_ids out) = length batch
         \<and> length (attention_mask out) = length batch
         \<and> length (labels out) = length batch
         \<and> (\<forall>r < length batch.
               length (input_ids out ! r) = V \<and> length (attention_mask out ! r) = V
               \<and> length (labels out ! r) = W
               \<and> (\<forall>j < V. attention_mask out ! r ! j = 0
                            \<longleftrightarrow> input_ids out ! r ! j = pad_token_id tok))"
proof -
  let ?is = "map (\<lambda>ex. tokenize tok (full_text ex)) batch"
  let ?ls = "map (\<lambda>ex. example_labels (tokenize tok (full_text ex)) (prompt_length ex)) batch"
  have V: "Max (set (map length ?is)) = V"
    unfolding V_def map_map comp_def ..
  have W: "Max (set (map length ?ls)) = W"
    unfolding W_def map_map comp_def ..
  have i_is: "i < length ?is" and i_ls: "i < length ?ls"
    using assms(6) by simp_all
  have is_i: "?is ! i = ids" and ls_i: "?ls ! i = lab"
    using assms(6) by (simp_all add: ids_def lab_def)
  have c1: "input_ids out ! i
           = (case padding_side tok of
                Right \<Rightarrow> ids @ replicate (V - length ids) (pad_token_id tok)
              | Left \<Rightarrow> replicate (V - length ids) (pad_token_id tok) @ ids)"
    unfolding out_def input_ids_data_collator tokenizer_pad_nth [OF i_is] V is_i ..
  have c3: "labels out ! i
           = (case padding_side tok of
                Right \<Rightarrow> lab @ replicate (W - length lab) (pad_token_id tok)
              | Left \<Rightarrow> replicate (W - length lab) (pad_token_id tok) @ lab)"
    unfolding out_def labels_data_collator tokenizer_pad_nth [OF i_ls] W ls_i ..
  have len_in: "length (input_ids out) = length batch"
    by (simp add: out_def input_ids_data_collator length_tokenizer_pad)
  then have c8: "length (input_ids out) = length batch" .
  have mask: "attention_mask out
                = map (map (\<lambda>x. if x \<noteq> pad_token_id tok then 1 else 0)) (input_ids out)"
    unfolding out_def by (rule attention_mask_data_collator)
  from len_in have c9: "length (attention_mask out) = length batch"
    by (simp add: mask)
  have c10: "length (labels out) = length batch"
    by (simp add: out_def labels_data_collator length_tokenizer_pad)
  from assms(6) len_in
  have "attention_mask out ! i
          = map (\<lambda>x. if x \<noteq> pad_token_id tok then 1 else 0) (input_ids out ! i)"
    by (simp add: mask)
  then have c2: "attention_mask out ! i
           = (case padding_side tok of
                Right \<Rightarrow> map (\<lambda>x. if x \<noteq> pad_token_id tok then 1 else 0) ids
                          @ replicate (V - length ids) 0
              | Left \<Rightarrow> replicate (V - length ids) 0
                          @ map (\<lambda>x. if x \<noteq> pad_token_id tok then 1 else 0) ids)"
    unfolding c1 by (cases "padding_side tok") simp_all
  from assms(7) have c4: "0 < V - length ids"
    unfolding V_def ids_def by simp
  have c5: "V \<le> W"
    unfolding V_def W_def by (rule max_length_labels_ge)
  have c6: "length lab = max (prompt_length (batch ! i)) (length ids)"
    by (simp add: lab_def ids_def length_example_labels)
  from assms(8) have c7: "pad_token_id tok \<noteq> - 100" by simp
  have c11: "\<forall>r < length batch.
           length (input_ids out ! r) = V \<and> length (attention_mask out ! r) = V
           \<and> length (labels out ! r) = W
           \<and> (\<forall>j < V. attention_mask out ! r ! j = 0
                        \<longleftrightarrow> input_ids out ! r ! j = pad_token_id tok)"
  proof (intro allI impI)
    fix r assume r: "r < length batch"
    then have r_is: "r < length ?is" and r_ls: "r < length ?ls" by simp_all
    have l1: "length (input_ids out ! r) = V"
      unfolding out_def input_ids_data_collator length_tokenizer_pad_nth [OF r_is] V ..
    have l2: "length (labels out ! r) = W"
      unfolding out_def labels_data_collator length_tokenizer_pad_nth [OF r_ls] W ..
    from r len_in
    have row: "attention_mask out ! r
                 = map (\<lambda>x. if x \<noteq> pad_token_id tok then 1 else 0) (input_ids out ! r)"
      by (simp add: mask)
    from l1 have l3: "length (attention_mask out ! r) = V"
      by (simp add: row)
    from l1 have "\<forall>j < V. attention_mask out ! r ! j = 0
                     \<longleftrightarrow> input_ids out ! r ! j = pad_token_id tok"
      by (simp add: row)
    with l1 l2 l3
    show "length (input_ids out ! r) = V \<and> length (attention_mask out ! r) = V
          \<and> length (labels out ! r) = W
          \<and> (\<forall>j < V. attention_mask out ! r ! j = 0
                       \<longleftrightarrow> input_ids out ! r ! j = pad_token_id tok)"
      by blast
  qed
  from c1 c2 c3 c4 c5 c6 c7 c8 c9 c10 c11 show ?thesis
    by (intro conjI)
qed

text \<open>
  The hypotheses of C10 at the second example of the batch above: two token ids, two
  pad token ids after them, in the labels too, and two zeros at the end of the mask.
\<close>

theorem collated_padding_is_pad_token_witness:
  "input_ids (data_collator [\<lparr>full_text = ''abcd'', prompt_length = 3\<rparr>,
                              \<lparr>full_text = ''ef'', prompt_length = 1\<rparr>] char_tokenizer) ! 1
     = [101, 102] @ replicate 2 0
   \<and> attention_mask (data_collator [\<lparr>full_text = ''abcd'', prompt_length = 3\<rparr>,
                                     \<lparr>full_text = ''ef'', prompt_length = 1\<rparr>] char_tokenizer) ! 1
     = [1, 1] @ replicate 2 0
   \<and> labels (data_collator [\<lparr>full_text = ''abcd'', prompt_length = 3\<rparr>,
                             \<lparr>full_text = ''ef'', prompt_length = 1\<rparr>] char_tokenizer) ! 1
     = [- 100, 102] @ replicate 2 0"
proof -
  let ?batch = "[\<lparr>full_text = ''abcd'', prompt_length = 3\<rparr>, \<lparr>full_text = ''ef'', prompt_length = 1\<rparr>]"
  have a: "1 < length ?batch" by simp
  have b: "length (tokenize char_tokenizer (full_text (?batch ! 1)))
             < Max (set (map (\<lambda>ex. length (tokenize char_tokenizer (full_text ex))) ?batch))"
    by (simp add: char_tokenizer_def)
  have c: "0 \<le> pad_token_id char_tokenizer" by (simp add: char_tokenizer_def)
  have ev: "tokenize char_tokenizer (full_text (?batch ! 1)) = [101, 102]"
    "Max (set (map (\<lambda>ex. length (tokenize char_tokenizer (full_text ex))) ?batch)) = 4"
    "Max (set (map (\<lambda>ex. length (example_labels (tokenize char_tokenizer (full_text ex))
                                                  (prompt_length ex))) ?batch)) = 4"
    "pad_token_id char_tokenizer = 0" "padding_side char_tokenizer = Right"
    by (simp_all add: char_tokenizer_def example_labels_def)
  from collated_padding_is_pad_token [OF a b c] show ?thesis
    unfolding ev by (simp add: example_labels_def)
qed

section \<open>The region aggregator\<close>

text \<open>Each head returns a vector of its own width, whatever the number of values.\<close>

lemma length_weighted_fold:
  assumes "\<forall>wv \<in> set wvs. length (snd wv) = d"
  shows "length (foldr (\<lambda>(w, v) acc. map2 (+) (map ((*) w) v) acc) wvs (replicate d (0::real))) = d"
  using assms by (induction wvs) (auto simp: case_prod_beta)

lemma length_weighted_sum:
  assumes "\<forall>v \<in> set vs. length v = d"
  shows "length (weighted_sum d ws vs) = d"
  unfolding weighted_sum_def
proof (rule length_weighted_fold)
  show "\<forall>wv \<in> set (zip ws vs). length (snd wv) = d"
    using assms by (auto dest: set_zip_rightD)
qed

lemma length_head_slice:
  assumes "(h + 1) * d \<le> length v"
  shows "length (head_slice d h v) = d"
  using assms by (simp add: head_slice_def)

text \<open>The heads together return a vector of dimension \<open>H\<close>, when their number divides \<open>H\<close>.\<close>

lemma length_attend:
  assumes "num_heads dvd H" and "\<forall>v \<in> set vals. length v = H"
  shows "length (attend num_heads H q keys vals) = H"
proof -
  define d where "d = H div num_heads"
  from assms(1) have H: "H = num_heads * d"
    by (simp add: d_def)
  have head: "length (weighted_sum d ws (map (head_slice d h) vals)) = d"
    if "h < num_heads" for h ws
  proof (rule length_weighted_sum, rule ballI)
    fix u assume "u \<in> set (map (head_slice d h) vals)"
    then obtain v where v: "v \<in> set vals" and u: "u = head_slice d h v" by auto
    from that have "(h + 1) * d \<le> num_heads * d"
      by (intro mult_le_mono1) simp
    with v assms(2) H have "(h + 1) * d \<le> length v" by simp
    then show "length u = d" unfolding u by (rule length_head_slice)
  qed
  have "length (attend num_heads H q keys vals)
          = sum_list (map (\<lambda>h. d) [0..<num_heads])"
    unfolding attend_def Let_def d_def [symmetric] length_concat map_map comp_def
    by (rule arg_cong [where f = sum_list], rule map_cong) (simp_all add: head)
  also have "\<dots> = num_heads * d"
    by (simp add: sum_list_triv)
  finally show ?thesis using H by simp
qed

text \<open>
  Lines 77-80 with this attention module: the batch axis that \<open>unsqueeze(1)\<close> adds is
  the one that \<open>squeeze(1)\<close> removes, and each learned vector attends to the region.
\<close>

lemma aligned_region_multi_head:
  assumes "cross_attention a = multi_head_attention num_heads H"
  shows "aligned_region a region_emb
           = Inr (map (\<lambda>q. attend num_heads H q region_emb region_emb) (implicit_tokens a))"
  by (simp add: aligned_region_def assms multi_head_attention_def unsqueeze1_def squeeze1_def
      list_all_iff comp_def)

text \<open>
  C8: with the multi-head attention of the spec, a head count that divides the hidden
  size, \<open>k\<close> learned vectors and a region of \<open>L \<ge> 1\<close> vectors of dimension \<open>H\<close>, the
  aggregated region has exactly \<open>k\<close> vectors of dimension \<open>H\<close>, whatever \<open>L\<close> is.
\<close>

theorem aligned_region_shape:
  assumes "cross_attention a = multi_head_attention num_heads (hidden_size a)"
    and "num_heads dvd hidden_size a"
    and "length (implicit_tokens a) = k a"
    and "region_emb \<noteq> []"
    and "\<forall>v \<in> set region_emb. length v = hidden_size a"
  shows "\<exists>aligned. aligned_region a region_emb = Inr aligned
           \<and> length aligned = k a
           \<and> (\<forall>v \<in> set aligned. length v = hidden_size a)"
proof -
  let ?out = "map (\<lambda>q. attend num_heads (hidden_size a) q region_emb region_emb) (implicit_tokens a)"
  from assms(1) have "aligned_region a region_emb = Inr ?out"
    by (rule aligned_region_multi_head)
  moreover from assms(3) have "length ?out = k a" by simp
  moreover from assms(2,5) have "\<forall>v \<in> set ?out. length v = hidden_size a"
    by (auto simp: length_attend)
  ultimately show ?thesis by blast
qed

text \<open>The hypotheses of C8 at \<open>H = 4\<close>, two heads, \<open>k = 3\<close> and a region of two vectors.\<close>

theorem aligned_region_shape_witness:
  "\<exists>aligned.
     aligned_region
       \<lparr>hidden_size = 4, k = 3, implicit_tokens = [[1, 0, 0, 0], [0, 1, 0, 0], [0, 0, 1, 0]],
        cross_attention = multi_head_attention 2 4\<rparr>
       [[1, 2, 3, 4], [5, 6, 7, 8]] = Inr aligned
     \<and> length aligned = 3
     \<and> (\<forall>v \<in> set aligned. length v = 4)"
proof -
  let ?a = "\<lparr>hidden_size = 4, k = 3, implicit_tokens = [[1, 0, 0, 0], [0, 1, 0, 0], [0, 0, 1, 0]],
              cross_attention = multi_head_attention 2 4\<rparr> :: real list aligner"
  let ?region = "[[1, 2, 3, 4], [5, 6, 7, 8]] :: real list list"
  have a: "cross_attention ?a = multi_head_attention 2 (hidden_size ?a)" by simp
  have b: "2 dvd hidden_size ?a" by simp
  have c: "length (implicit_tokens ?a) = k ?a" by simp
  have d: "?region \<noteq> []" by simp
  have e: "\<forall>v \<in> set ?region. length v = hidden_size ?a" by simp
  from aligned_region_shape [OF a b c d e] show ?thesis by simp
qed

section \<open>Merging two datasets\<close>

text \<open>
  C9: with a dataset stored under each of the two paths, field sets that differ, and
  more generally schemas that differ, end the script with \<open>ValueError\<close> and nothing
  written; when the script does write, the schemas were equal, and what it writes under
  \<open>data/merged\<close> is the split of the concatenation of the two datasets.
\<close>

theorem schema_mismatch_is_fatal:
  assumes "disk ''data/s1'' = Some (Dataset dataset1)"
    and "disk ''data/s2'' = Some (Dataset dataset2)"
  shows "(dom (features dataset1) \<noteq> dom (features dataset2)
            \<longrightarrow> dataset_merge train_test_split disk = Inl ValueError)
         \<and> (features dataset1 \<noteq> features dataset2
            \<longrightarrow> dataset_merge train_test_split disk = Inl ValueError)
         \<and> (\<forall>disk'. dataset_merge train_test_split disk = Inr disk'
               \<longrightarrow> features dataset1 = features dataset2
                   \<and> disk' = disk(''data/merged'' \<mapsto>
                        DatasetDict (fst (train_test_split (concatenate_datasets [dataset1, dataset2])))
                                    (snd (train_test_split (concatenate_datasets [dataset1, dataset2])))))"
proof -
  have differ: "features dataset1 \<noteq> features dataset2"
    if "dom (features dataset1) \<noteq> dom (features dataset2)"
    using that by auto
  have raise: "dataset_merge train_test_split disk = Inl ValueError"
    if "features dataset1 \<noteq> features dataset2"
    using that assms by (simp add: dataset_merge_def)
  have ok: "dataset_merge train_test_split disk
              = Inr (disk(''data/merged'' \<mapsto>
                  DatasetDict (fst (train_test_split (concatenate_datasets [dataset1, dataset2])))
                              (snd (train_test_split (concatenate_datasets [dataset1, dataset2])))))"
    if "features dataset1 = features dataset2"
    using that assms by (simp add: dataset_merge_def Let_def split: prod.split)
  from differ raise ok show ?thesis
    by (metis Inl_Inr_False sum.inject(2))
qed

text \<open>
  The hypotheses of C9 at scenario C of the spec: fields problem, solution,
  logic_trajectory, answer against fields problem, answer.
\<close>

theorem schema_mismatch_is_fatal_witness:
  "dom (features \<lparr>features = [''problem'' \<mapsto> ''string'', ''solution'' \<mapsto> ''string'',
                                ''logic_trajectory'' \<mapsto> ''string'', ''answer'' \<mapsto> ''string''],
                    rows = [[''p1'', ''s1'', ''t1'', ''a1'']]\<rparr>)
     \<noteq> dom (features \<lparr>features = [''problem'' \<mapsto> ''string'', ''answer'' \<mapsto> ''string''],
                        rows = [[''p2'', ''a2'']]\<rparr>)
   \<and> dataset_merge (\<lambda>d. (d, d))
        [''data/s1'' \<mapsto>
           Dataset \<lparr>features = [''problem'' \<mapsto> ''string'', ''solution'' \<mapsto> ''string'',
                                ''logic_trajectory'' \<mapsto> ''string'', ''answer'' \<mapsto> ''string''],
                    rows = [[''p1'', ''s1'', ''t1'', ''a1'']]\<rparr>,
         ''data/s2'' \<mapsto>
           Dataset \<lparr>features = [''problem'' \<mapsto> ''string'', ''answer'' \<mapsto> ''string''],
                    rows = [[''p2'', ''a2'']]\<rparr>]
       = Inl ValueError"
proof -
  let ?A = "\<lparr>features = [''problem'' \<mapsto> ''string'', ''solution'' \<mapsto> ''string'',
                           ''logic_trajectory'' \<mapsto> ''string'', ''answer'' \<mapsto> ''string''],
               rows = [[''p1'', ''s1'', ''t1'', ''a1'']]\<rparr>"
  let ?B = "\<lparr>features = [''problem'' \<mapsto> ''string'', ''answer'' \<mapsto> ''string''],
               rows = [[''p2'', ''a2'']]\<rparr>"
  let ?disk = "[''data/s1'' \<mapsto> Dataset ?A, ''data/s2'' \<mapsto> Dataset ?B]"
  have a: "?disk ''data/s1'' = Some (Dataset ?A)" by simp
  have b: "?disk ''data/s2'' = Some (Dataset ?B)" by simp
  have "''solution'' \<in> dom (features ?A)" by simp
  moreover have "''solution'' \<notin> dom (features ?B)" by simp
  ultimately have c: "dom (features ?A) \<noteq> dom (features ?B)" by metis
  from schema_mismatch_is_fatal [OF a b, of "\<lambda>d. (d, d)"] c show ?thesis
    by blast
qed

end
